theory Spec2Isabelle
  imports Main
begin

section \<open>The desktop session manager (source/host/desktop\_session\_manager.cc)\<close>

text \<open>
  The controller is a C++ object whose member functions mutate its fields and call into
  collaborators (timer, proxy, IPC server, task runner, logger). Each member function is
  embedded as a function from the object's state to its new state. Every call into a
  collaborator is also appended, in program order, to a trace of effects, so that
  statements about what a call does, and in which order, can be made.

  The fields of the C++ class end in an underscore (\<open>state_\<close>, \<open>session_\<close>, ...); the
  record fields below drop it.
\<close>

subsection \<open>Data\<close>

datatype State = STOPPED | STARTING | ATTACHED | DETACHED | STOPPING

type_synonym session_id = nat

text \<open>
  Modelled from the spec: the channel identifier (\<open>base::IpcServer::createUniqueId\<close>, whose
  code is absent). The spec calls it an opaque token generated fresh per attach attempt;
  the model draws it from a counter kept in the state.
\<close>

type_synonym channel_id = nat

text \<open>\<open>base::Location\<close>, as made by \<open>FROM_HERE\<close>: the function and the line.\<close>

datatype location = Location string nat

text \<open>
  Modelled from the spec: \<open>base::IpcChannel\<close> (absent). The server hands over the raw
  connection with the peer's resolved executable path; \<open>accepted_on\<close> records the
  identifier of the endpoint the peer connected to. The controller reads only the path.
\<close>

record ipc_channel =
  peerFilePath :: string
  accepted_on :: channel_id

text \<open>
  Objects on the heap carry the number of their allocation, so that two sessions or two
  servers created at different moments are different values.
\<close>

datatype session = DesktopSessionFake nat | DesktopSessionIpc nat ipc_channel

text \<open>
  Modelled from the spec: \<open>base::IpcServer\<close> (absent). \<open>start\<close> opens one listening
  endpoint bound to the identifier, \<open>stop\<close> closes it.
\<close>

record ipc_server =
  server_object :: nat
  listening_on :: "channel_id option"

text \<open>The two lambdas handed to \<open>session_attach_timer_.start\<close>.\<close>

datatype timer_callback = AttachTimeout | ReattachTimeout

datatype severity = LS_INFO | LS_WARNING | LS_ERROR

text \<open>The operands streamed into a \<open>LOG(...)\<close> line.\<close>

datatype log_arg = Str string | Num nat | Loc location | St State

datatype effect =
    Log severity "log_arg list"
  | SetState State
  | TimerStart timer_callback
  | TimerStop
  | ServerCreated nat
  | ServerDestroyed nat
  | ServerStart nat channel_id bool
  | ServerStop nat
  | ProcessCreate session_id channel_id bool
  | SessionCreated session
  | SessionDestroyed session
  | ProxyAttachAndStart session
  | ProxyStopAndDettach "session option"
  | DeleteSoonSession "session option"
  | DeleteSoonServer ipc_server
  | DelegateSessionStarted

text \<open>
  The object. \<open>session\<close> and \<open>server\<close> are the two \<open>std::unique_ptr\<close> members (\<open>None\<close> is
  the null pointer); \<open>session_attach_timer\<close> is the pending callback of the single-shot
  timer (\<open>None\<close>: not armed); \<open>session_proxy\<close> is the session the proxy is bound to.
  \<open>worker_file_path\<close> is what \<open>DesktopSessionProcess::filePath()\<close> returns: the
  function is absent, so its value is a parameter fixed at construction.
  \<open>next_object\<close> numbers allocations, \<open>last_channel_id\<close> is the identifier counter and
  \<open>trace\<close> the effects so far, oldest first.
\<close>

record manager =
  state :: State
  session :: "session option"
  server :: "ipc_server option"
  session_attach_timer :: "timer_callback option"
  session_proxy :: "session option"
  worker_file_path :: string
  next_object :: nat
  last_channel_id :: nat
  trace :: "effect list"

text \<open>What the attach attempt meets outside the controller: whether the server could open
  its endpoint and whether the worker process could be spawned.\<close>

record attach_env =
  server_start_ok :: bool
  process_create_ok :: bool

subsection \<open>Collaborators\<close>

definition emit :: "effect \<Rightarrow> manager \<Rightarrow> manager" where
  "emit e m = m\<lparr>trace := trace m @ [e]\<rparr>"

definition LOG :: "severity \<Rightarrow> log_arg list \<Rightarrow> manager \<Rightarrow> manager" where
  "LOG s args m = emit (Log s args) m"

text \<open>An assignment to \<open>state_\<close>; the trace keeps the sequence of states assigned.\<close>

definition set_state :: "State \<Rightarrow> manager \<Rightarrow> manager" where
  "set_state s m = emit (SetState s) (m\<lparr>state := s\<rparr>)"

text \<open>
  Modelled from the spec: \<open>base::WaitableTimer\<close> of type SINGLE\_SHOT (absent). At most
  one deadline is pending; \<open>start\<close> replaces it, \<open>stop\<close> cancels it.
\<close>

definition timer_start :: "timer_callback \<Rightarrow> manager \<Rightarrow> manager" where
  "timer_start cb m = emit (TimerStart cb) (m\<lparr>session_attach_timer := Some cb\<rparr>)"

definition timer_stop :: "manager \<Rightarrow> manager" where
  "timer_stop m = emit TimerStop (m\<lparr>session_attach_timer := None\<rparr>)"

text \<open>
  Modelled from the spec: \<open>DesktopSessionProxy\<close> (absent). \<open>attachAndStart(session)\<close>
  binds a new Session and starts it; \<open>stopAndDettach()\<close> stops and unbinds the current
  Session. The proxy holds one binding.
\<close>

definition attachAndStart :: "session \<Rightarrow> manager \<Rightarrow> manager" where
  "attachAndStart s m = emit (ProxyAttachAndStart s) (m\<lparr>session_proxy := Some s\<rparr>)"

definition stopAndDettach :: "manager \<Rightarrow> manager" where
  "stopAndDettach m = emit (ProxyStopAndDettach (session_proxy m)) (m\<lparr>session_proxy := None\<rparr>)"

text \<open>\<open>task_runner_->deleteSoon(std::move(session_))\<close>: the pointer is moved out (the
  member becomes null) and its deletion is posted to the task runner.\<close>

definition deleteSoon_session :: "manager \<Rightarrow> manager" where
  "deleteSoon_session m = emit (DeleteSoonSession (session m)) (m\<lparr>session := None\<rparr>)"

definition deleteSoon_server :: "manager \<Rightarrow> manager" where
  "deleteSoon_server m =
     (case server m of
        None \<Rightarrow> m
      | Some srv \<Rightarrow> emit (DeleteSoonServer srv) (m\<lparr>server := None\<rparr>))"

text \<open>
  \<open>session_ = std::make_unique<...>(...)\<close>: the new object is constructed first, then the
  assignment destroys, at once, the object the pointer owned before (if any).
\<close>

definition assign_session :: "session \<Rightarrow> manager \<Rightarrow> manager" where
  "assign_session s m =
     (let m1 = emit (SessionCreated s) (m\<lparr>next_object := Suc (next_object m)\<rparr>);
          m2 = (case session m1 of None \<Rightarrow> m1 | Some old \<Rightarrow> emit (SessionDestroyed old) m1)
      in m2\<lparr>session := Some s\<rparr>)"

definition assign_server :: "manager \<Rightarrow> manager" where
  "assign_server m =
     (let n = next_object m;
          m1 = emit (ServerCreated n) (m\<lparr>next_object := Suc n\<rparr>);
          m2 = (case server m1 of
                  None \<Rightarrow> m1
                | Some old \<Rightarrow> emit (ServerDestroyed (server_object old)) m1)
      in m2\<lparr>server := Some \<lparr>server_object = n, listening_on = None\<rparr>\<rparr>)"

text \<open>\<open>server_->start(channel_id, this)\<close>, called right after \<open>assign_server\<close>.\<close>

definition server_start :: "channel_id \<Rightarrow> bool \<Rightarrow> manager \<Rightarrow> manager" where
  "server_start cid ok m =
     (case server m of
        None \<Rightarrow> m
      | Some srv \<Rightarrow>
          emit (ServerStart (server_object srv) cid ok)
            (if ok then m\<lparr>server := Some (srv\<lparr>listening_on := Some cid\<rparr>)\<rparr> else m))"

definition server_stop :: "manager \<Rightarrow> manager" where
  "server_stop m =
     (case server m of
        None \<Rightarrow> m
      | Some srv \<Rightarrow>
          emit (ServerStop (server_object srv))
            (m\<lparr>server := Some (srv\<lparr>listening_on := None\<rparr>)\<rparr>))"

subsection \<open>The member functions\<close>

text \<open>The constructor. The initial value of \<open>state_\<close> is given in the class declaration,
  which is absent; the spec's state machine starts in \<open>Stopped\<close>.\<close>

definition DesktopSessionManager :: "string \<Rightarrow> manager" where
  "DesktopSessionManager path =
     LOG LS_INFO [Str ''DesktopSessionManager Ctor'']
       \<lparr>state = STOPPED, session = None, server = None, session_attach_timer = None,
        session_proxy = None, worker_file_path = path, next_object = 0,
        last_channel_id = 0, trace = []\<rparr>"

definition dettachSession :: "location \<Rightarrow> manager \<Rightarrow> manager" where
  "dettachSession loc m =
     (if state m = STOPPED \<or> state m = DETACHED
      then LOG LS_INFO [Str ''Session already stopped or dettached ('', St (state m), Str '')''] m
      else
        let m1 = LOG LS_INFO [Str ''Dettach session (from: '', Loc loc, Str '')''] m;
            m2 = (if state m1 \<noteq> STOPPING then set_state DETACHED m1 else m1);
            m3 = timer_stop m2;
            m4 = stopAndDettach m3;
            m5 = deleteSoon_session m4;
            m6 = LOG LS_INFO [Str ''Session process is detached''] m5
        in if state m6 = STOPPING then m6
           else
             let m7 = timer_start ReattachTimeout m6;
                 m8 = assign_session (DesktopSessionFake (next_object m7)) m7
             in attachAndStart (DesktopSessionFake (next_object m7)) m8)"

definition onErrorOccurred :: "manager \<Rightarrow> manager" where
  "onErrorOccurred m =
     (if state m = STOPPED \<or> state m = STOPPING then m
      else set_state STOPPED
             (dettachSession (Location ''onErrorOccurred'' 164) (set_state STOPPING m)))"

definition destructor :: "manager \<Rightarrow> manager" where
  "destructor m =
     dettachSession (Location ''~DesktopSessionManager'' 48)
       (set_state STOPPING (LOG LS_INFO [Str ''DesktopSessionManager Dtor''] m))"

definition attachSession :: "location \<Rightarrow> session_id \<Rightarrow> attach_env \<Rightarrow> manager \<Rightarrow> manager" where
  "attachSession loc sid env m =
     (if state m = ATTACHED then m
      else
        let m1 = LOG LS_INFO [Str ''Attach session with ID: '', Num sid,
                              Str '' (from: '', Loc loc, Str '')''] m;
            m2 = (if state m1 = STOPPED then timer_start AttachTimeout m1 else m1);
            m3 = set_state STARTING m2;
            cid = last_channel_id m3;
            m4 = m3\<lparr>last_channel_id := Suc cid\<rparr>;
            m5 = server_start cid (server_start_ok env) (assign_server m4)
        in if \<not> server_start_ok env
           then onErrorOccurred (LOG LS_ERROR [Str ''Failed to start IPC server''] m5)
           else
             let m6 = emit (ProcessCreate sid cid (process_create_ok env)) m5
             in if \<not> process_create_ok env
                then onErrorOccurred (LOG LS_ERROR [Str ''Failed to create session process''] m6)
                else LOG LS_INFO [Str ''Desktop session process created''] m6)"

definition onNewConnection :: "ipc_channel \<Rightarrow> manager \<Rightarrow> manager" where
  "onNewConnection channel m =
     (if worker_file_path m \<noteq> peerFilePath channel
      then LOG LS_ERROR [Str ''An attempt was made to connect from an unknown application''] m
      else
        let m1 = LOG LS_INFO [Str ''Session process successfully connected''] m;
            m2 = timer_stop m1;
            m3 = (if server m2 \<noteq> None
                  then deleteSoon_server
                         (server_stop (LOG LS_INFO [Str ''IPC server already exists. Stop it''] m2))
                  else m2);
            s = DesktopSessionIpc (next_object m3) channel;
            m4 = assign_session s m3;
            m5 = set_state ATTACHED m4
        in attachAndStart s m5)"

definition onDesktopSessionStarted :: "manager \<Rightarrow> manager" where
  "onDesktopSessionStarted m = emit DelegateSessionStarted m"

definition onDesktopSessionStopped :: "manager \<Rightarrow> manager" where
  "onDesktopSessionStopped m = dettachSession (Location ''onDesktopSessionStopped'' 175) m"

text \<open>
  The timer firing: a single-shot timer is no longer armed once it fires, and it runs
  the lambda it was started with. A timer that is not armed does not fire.
\<close>

definition timer_fired :: "manager \<Rightarrow> manager" where
  "timer_fired m =
     (case session_attach_timer m of
        None \<Rightarrow> m
      | Some AttachTimeout \<Rightarrow>
          onErrorOccurred
            (LOG LS_WARNING [Str ''Session attach timeout''] (m\<lparr>session_attach_timer := None\<rparr>))
      | Some ReattachTimeout \<Rightarrow>
          onErrorOccurred
            (LOG LS_ERROR [Str ''Timeout while waiting for session'']
               (m\<lparr>session_attach_timer := None\<rparr>)))"

text \<open>
  Modelled from the spec: the hand-over of an inbound connection by the Channel Server
  (absent). A peer that connects to the endpoint named \<open>cid\<close> reaches \<open>onNewConnection\<close>
  only if the controller's server object is listening on that identifier.
\<close>

definition inbound_connection :: "channel_id \<Rightarrow> string \<Rightarrow> manager \<Rightarrow> manager" where
  "inbound_connection cid path m =
     (case server m of
        None \<Rightarrow> m
      | Some srv \<Rightarrow>
          if listening_on srv = Some cid
          then onNewConnection \<lparr>peerFilePath = path, accepted_on = cid\<rparr> m
          else m)"

subsection \<open>Executions and observations\<close>

text \<open>
  The entry points through which the rest of the host drives the controller: the two
  public operations, the server's and the session's callbacks, and the timer.
\<close>

datatype event =
    AttachSession location session_id attach_env
  | DettachSession location
  | NewConnection ipc_channel
  | SessionStarted
  | SessionStopped
  | TimerFired

fun step :: "event \<Rightarrow> manager \<Rightarrow> manager" where
  "step (AttachSession loc sid env) m = attachSession loc sid env m"
| "step (DettachSession loc) m = dettachSession loc m"
| "step (NewConnection channel) m = onNewConnection channel m"
| "step SessionStarted m = onDesktopSessionStarted m"
| "step SessionStopped m = onDesktopSessionStopped m"
| "step TimerFired m = timer_fired m"

definition run :: "event list \<Rightarrow> manager \<Rightarrow> manager" where
  "run es m = fold step es m"

text \<open>The controller, the timer and the proxy, without the bookkeeping of the model.\<close>

definition configuration ::
  "manager \<Rightarrow> State \<times> session option \<times> ipc_server option \<times> timer_callback option \<times> session option"
  where
  "configuration m =
     (state m, session m, server m, session_attach_timer m, session_proxy m)"

fun is_log :: "effect \<Rightarrow> bool" where
  "is_log (Log s args) = True"
| "is_log e = False"

text \<open>Everything a call did to its collaborators, log lines apart.\<close>

definition visible_effects :: "manager \<Rightarrow> effect list" where
  "visible_effects m = filter (\<lambda>e. \<not> is_log e) (trace m)"

text \<open>The effects added between an earlier state and a later one.\<close>

definition effects_since :: "manager \<Rightarrow> manager \<Rightarrow> effect list" where
  "effects_since m m' = drop (length (trace m)) (trace m')"

text \<open>How many sessions the proxy is bound to.\<close>

definition bound_sessions :: "manager \<Rightarrow> nat" where
  "bound_sessions m = (case session_proxy m of None \<Rightarrow> 0 | Some s \<Rightarrow> 1)"

text \<open>The identifiers on which servers were asked to listen, oldest first.\<close>

fun started_ids :: "effect list \<Rightarrow> channel_id list" where
  "started_ids [] = []"
| "started_ids (ServerStart n cid ok # es) = cid # started_ids es"
| "started_ids (e # es) = started_ids es"

subsection \<open>Invariants of executions\<close>

text \<open>The proxy is bound to the session the controller owns, and whether there is one
  follows the state.\<close>

definition proxy_coherent :: "manager \<Rightarrow> bool" where
  "proxy_coherent m =
     (session_proxy m = session m \<and> state m \<noteq> STOPPING \<and>
      (state m = STOPPED \<longrightarrow> session m = None) \<and>
      (state m = ATTACHED \<or> state m = DETACHED \<longrightarrow> session m \<noteq> None))"

text \<open>If the controller's server is listening, it is on the identifier drawn last.\<close>

definition newest_endpoint_only :: "manager \<Rightarrow> bool" where
  "newest_endpoint_only m =
     (case server m of
        None \<Rightarrow> True
      | Some srv \<Rightarrow>
          (case listening_on srv of
             None \<Rightarrow> True
           | Some cid \<Rightarrow> Suc cid = last_channel_id m))"

text \<open>No identifier was used twice, and all of them came from the counter.\<close>

definition identifiers_fresh :: "manager \<Rightarrow> bool" where
  "identifiers_fresh m =
     (distinct (started_ids (trace m)) \<and>
      (\<forall>i \<in> set (started_ids (trace m)). i < last_channel_id m))"

section \<open>The desktop environment (source/desktop/win/desktop\_environment.cc)\<close>

datatype spi_action =
    SPI_SETDESKWALLPAPER | SPI_SETFONTSMOOTHING | SPI_SETDRAGFULLWINDOWS | SPI_SETANIMATION
  | SPI_SETMENUANIMATION | SPI_SETTOOLTIPANIMATION | SPI_SETCOMBOBOXANIMATION
  | SPI_SETSELECTIONFADE | SPI_SETLISTBOXSMOOTHSCROLLING | SPI_SETUIEFFECTS
  | SPI_SETCLIENTAREAANIMATION | SPI_SETGRADIENTCAPTIONS | SPI_SETHOTTRACKING

text \<open>The \<open>pvParam\<close> argument: a null pointer (\<open>0\<close> or \<open>FALSE\<close>), the empty wide string, or
  the address of an \<open>ANIMATIONINFO\<close> with the given \<open>iMinAnimate\<close>.\<close>

datatype pv_param = Null | EmptyString | AnimationInfo nat

datatype win_ini = SPIF_SENDCHANGE

text \<open>
  Calls into the operating system, in program order. For the calls whose outcome the
  code branches on, the outcome is part of the entry. \<open>SizeofAnimationInfo\<close> stands for
  \<open>sizeof(animation)\<close> in the \<open>uiParam\<close> position, every other \<open>uiParam\<close> is 0 or FALSE.
\<close>

datatype ui_param = Zero | SizeofAnimationInfo

datatype system_call =
    SystemParametersInfoW spi_action ui_param pv_param win_ini
  | WTSQueryUserToken bool
  | LoggedOnUser bool
  | GetModuleHandleW bool
  | GetProcAddress bool
  | UpdatePerUserSystemParameters nat

text \<open>The three flags are declared in the class declaration, which is absent, so their
  initial values are parameters. \<open>calls\<close> is the list of system calls made so far.\<close>

record desktop_environment =
  wallpaper :: bool
  font_smoothing :: bool
  effects :: bool
  calls :: "system_call list"

text \<open>What \<open>revertAll\<close> meets: whether the user token can be queried, whether the
  impersonation succeeds, whether user32.dll and the function in it are found.\<close>

record revert_env =
  query_user_token_ok :: bool
  logged_on_user_ok :: bool
  module_found :: bool
  update_function_found :: bool

definition call :: "system_call \<Rightarrow> desktop_environment \<Rightarrow> desktop_environment" where
  "call c d = d\<lparr>calls := calls d @ [c]\<rparr>"

definition disableWallpaper :: "desktop_environment \<Rightarrow> desktop_environment" where
  "disableWallpaper d =
     call (SystemParametersInfoW SPI_SETDESKWALLPAPER Zero EmptyString SPIF_SENDCHANGE) d"

definition disableFontSmoothing :: "desktop_environment \<Rightarrow> desktop_environment" where
  "disableFontSmoothing d =
     call (SystemParametersInfoW SPI_SETFONTSMOOTHING Zero Null SPIF_SENDCHANGE) d"

definition disableEffects :: "desktop_environment \<Rightarrow> desktop_environment" where
  "disableEffects d =
     fold call
       [SystemParametersInfoW SPI_SETDRAGFULLWINDOWS Zero Null SPIF_SENDCHANGE,
        SystemParametersInfoW SPI_SETANIMATION SizeofAnimationInfo (AnimationInfo 0)
          SPIF_SENDCHANGE,
        SystemParametersInfoW SPI_SETMENUANIMATION Zero Null SPIF_SENDCHANGE,
        SystemParametersInfoW SPI_SETTOOLTIPANIMATION Zero Null SPIF_SENDCHANGE,
        SystemParametersInfoW SPI_SETCOMBOBOXANIMATION Zero Null SPIF_SENDCHANGE,
        SystemParametersInfoW SPI_SETSELECTIONFADE Zero Null SPIF_SENDCHANGE,
        SystemParametersInfoW SPI_SETLISTBOXSMOOTHSCROLLING Zero Null SPIF_SENDCHANGE,
        SystemParametersInfoW SPI_SETUIEFFECTS Zero Null SPIF_SENDCHANGE,
        SystemParametersInfoW SPI_SETCLIENTAREAANIMATION Zero Null SPIF_SENDCHANGE,
        SystemParametersInfoW SPI_SETGRADIENTCAPTIONS Zero Null SPIF_SENDCHANGE,
        SystemParametersInfoW SPI_SETHOTTRACKING Zero Null SPIF_SENDCHANGE]
       d"

definition revertAll :: "revert_env \<Rightarrow> desktop_environment \<Rightarrow> desktop_environment" where
  "revertAll env d =
     (let d1 = call (WTSQueryUserToken (query_user_token_ok env)) d
      in if \<not> query_user_token_ok env then d1
         else
           let d2 = call (LoggedOnUser (logged_on_user_ok env)) d1
           in if \<not> logged_on_user_ok env then d2
              else
                let d3 = call (GetModuleHandleW (module_found env)) d2
                in if module_found env
                   then
                     let d4 = call (GetProcAddress (update_function_found env)) d3
                     in if update_function_found env
                        then call (UpdatePerUserSystemParameters 6) d4
                        else d4
                   else d3)"

definition applyNewSettings :: "desktop_environment \<Rightarrow> desktop_environment" where
  "applyNewSettings d =
     (let d1 = (if \<not> wallpaper d then disableWallpaper d else d);
          d2 = (if \<not> font_smoothing d1 then disableFontSmoothing d1 else d1)
      in if \<not> effects d2 then disableEffects d2 else d2)"

definition DesktopEnvironment :: "bool \<Rightarrow> bool \<Rightarrow> bool \<Rightarrow> desktop_environment" where
  "DesktopEnvironment w f e =
     applyNewSettings \<lparr>wallpaper = w, font_smoothing = f, effects = e, calls = []\<rparr>"

definition setWallpaper :: "revert_env \<Rightarrow> bool \<Rightarrow> desktop_environment \<Rightarrow> desktop_environment" where
  "setWallpaper env enable d =
     (if wallpaper d = enable then d
      else applyNewSettings (revertAll env (d\<lparr>wallpaper := enable\<rparr>)))"

definition setFontSmoothing :: "revert_env \<Rightarrow> bool \<Rightarrow> desktop_environment \<Rightarrow> desktop_environment" where
  "setFontSmoothing env enable d =
     (if font_smoothing d = enable then d
      else applyNewSettings (revertAll env (d\<lparr>font_smoothing := enable\<rparr>)))"

definition setEffects :: "revert_env \<Rightarrow> bool \<Rightarrow> desktop_environment \<Rightarrow> desktop_environment" where
  "setEffects env enable d =
     (if effects d = enable then d
      else applyNewSettings (revertAll env (d\<lparr>effects := enable\<rparr>)))"

section \<open>Each operation in closed form\<close>

text \<open>
  For each member function and each of its paths, the state it returns, written as one
  record update of the state it was called on. The properties below are read off these.
\<close>

lemmas collaborator_defs = emit_def LOG_def set_state_def timer_start_def timer_stop_def
  attachAndStart_def stopAndDettach_def deleteSoon_session_def deleteSoon_server_def
  assign_session_def assign_server_def server_start_def server_stop_def

lemma dettachSession_idle:
  "state m = STOPPED \<or> state m = DETACHED \<Longrightarrow>
   dettachSession loc m =
     m\<lparr>trace := trace m @
        [Log LS_INFO [Str ''Session already stopped or dettached ('', St (state m), Str '')'']]\<rparr>"
  by (auto simp add: dettachSession_def LOG_def emit_def)

lemma dettachSession_stopping:
  "state m = STOPPING \<Longrightarrow>
   dettachSession loc m =
     m\<lparr>session := None, session_attach_timer := None, session_proxy := None,
       trace := trace m @
        [Log LS_INFO [Str ''Dettach session (from: '', Loc loc, Str '')''],
         TimerStop, ProxyStopAndDettach (session_proxy m), DeleteSoonSession (session m),
         Log LS_INFO [Str ''Session process is detached'']]\<rparr>"
  by (simp add: dettachSession_def collaborator_defs)

lemma dettachSession_active:
  "state m = STARTING \<or> state m = ATTACHED \<Longrightarrow>
   dettachSession loc m =
     m\<lparr>state := DETACHED, session := Some (DesktopSessionFake (next_object m)),
       session_attach_timer := Some ReattachTimeout,
       session_proxy := Some (DesktopSessionFake (next_object m)),
       next_object := Suc (next_object m),
       trace := trace m @
        [Log LS_INFO [Str ''Dettach session (from: '', Loc loc, Str '')''],
         SetState DETACHED, TimerStop, ProxyStopAndDettach (session_proxy m),
         DeleteSoonSession (session m),
         Log LS_INFO [Str ''Session process is detached''],
         TimerStart ReattachTimeout, SessionCreated (DesktopSessionFake (next_object m)),
         ProxyAttachAndStart (DesktopSessionFake (next_object m))]\<rparr>"
  by (auto simp add: dettachSession_def collaborator_defs)


lemma onErrorOccurred_idle:
  "state m = STOPPED \<or> state m = STOPPING \<Longrightarrow> onErrorOccurred m = m"
  by (simp add: onErrorOccurred_def)

lemma onErrorOccurred_active:
  "state m \<noteq> STOPPED \<Longrightarrow> state m \<noteq> STOPPING \<Longrightarrow>
   onErrorOccurred m =
     m\<lparr>state := STOPPED, session := None, session_attach_timer := None,
       session_proxy := None,
       trace := trace m @
        [SetState STOPPING,
         Log LS_INFO [Str ''Dettach session (from: '', Loc (Location ''onErrorOccurred'' 164), Str '')''],
         TimerStop, ProxyStopAndDettach (session_proxy m), DeleteSoonSession (session m),
         Log LS_INFO [Str ''Session process is detached''],
         SetState STOPPED]\<rparr>"
  by (simp add: onErrorOccurred_def dettachSession_stopping set_state_def emit_def)





lemma server_replaced_and_started:
  "server_start cid ok (assign_server m) =
     m\<lparr>server := Some \<lparr>server_object = next_object m,
                          listening_on = (if ok then Some cid else None)\<rparr>,
       next_object := Suc (next_object m),
       trace := trace m @ [ServerCreated (next_object m)] @
         (case server m of None \<Rightarrow> [] | Some old \<Rightarrow> [ServerDestroyed (server_object old)]) @
         [ServerStart (next_object m) cid ok]\<rparr>"
  by (cases "server m") (simp_all add: assign_server_def server_start_def emit_def Let_def)

lemma attachSession_attached: "state m = ATTACHED \<Longrightarrow> attachSession loc sid env m = m"
  by (simp add: attachSession_def)

lemma attachSession_created:
  "state m \<noteq> ATTACHED \<Longrightarrow> server_start_ok env \<Longrightarrow> process_create_ok env \<Longrightarrow>
   attachSession loc sid env m =
     m\<lparr>state := STARTING,
       server := Some \<lparr>server_object = next_object m, listening_on = Some (last_channel_id m)\<rparr>,
       session_attach_timer :=
         (if state m = STOPPED then Some AttachTimeout else session_attach_timer m),
       next_object := Suc (next_object m),
       last_channel_id := Suc (last_channel_id m),
       trace := trace m @
         [Log LS_INFO [Str ''Attach session with ID: '', Num sid, Str '' (from: '', Loc loc, Str '')'']] @
         (if state m = STOPPED then [TimerStart AttachTimeout] else []) @
         [SetState STARTING, ServerCreated (next_object m)] @
         (case server m of None \<Rightarrow> [] | Some old \<Rightarrow> [ServerDestroyed (server_object old)]) @
         [ServerStart (next_object m) (last_channel_id m) True,
          ProcessCreate sid (last_channel_id m) True,
          Log LS_INFO [Str ''Desktop session process created'']]\<rparr>"
  by (simp add: attachSession_def Let_def server_replaced_and_started
        LOG_def set_state_def timer_start_def emit_def)

lemma attachSession_server_failed:
  "state m \<noteq> ATTACHED \<Longrightarrow> \<not> server_start_ok env \<Longrightarrow>
   attachSession loc sid env m =
     m\<lparr>state := STOPPED, session := None,
       server := Some \<lparr>server_object = next_object m, listening_on = None\<rparr>,
       session_attach_timer := None, session_proxy := None,
       next_object := Suc (next_object m),
       last_channel_id := Suc (last_channel_id m),
       trace := trace m @
         [Log LS_INFO [Str ''Attach session with ID: '', Num sid, Str '' (from: '', Loc loc, Str '')'']] @
         (if state m = STOPPED then [TimerStart AttachTimeout] else []) @
         [SetState STARTING, ServerCreated (next_object m)] @
         (case server m of None \<Rightarrow> [] | Some old \<Rightarrow> [ServerDestroyed (server_object old)]) @
         [ServerStart (next_object m) (last_channel_id m) False,
          Log LS_ERROR [Str ''Failed to start IPC server''],
          SetState STOPPING,
          Log LS_INFO [Str ''Dettach session (from: '', Loc (Location ''onErrorOccurred'' 164), Str '')''],
          TimerStop, ProxyStopAndDettach (session_proxy m), DeleteSoonSession (session m),
          Log LS_INFO [Str ''Session process is detached''],
          SetState STOPPED]\<rparr>"
  by (simp add: attachSession_def Let_def server_replaced_and_started
        LOG_def set_state_def timer_start_def emit_def onErrorOccurred_active)

lemma attachSession_process_failed:
  "state m \<noteq> ATTACHED \<Longrightarrow> server_start_ok env \<Longrightarrow> \<not> process_create_ok env \<Longrightarrow>
   attachSession loc sid env m =
     m\<lparr>state := STOPPED, session := None,
       server := Some \<lparr>server_object = next_object m, listening_on = Some (last_channel_id m)\<rparr>,
       session_attach_timer := None, session_proxy := None,
       next_object := Suc (next_object m),
       last_channel_id := Suc (last_channel_id m),
       trace := trace m @
         [Log LS_INFO [Str ''Attach session with ID: '', Num sid, Str '' (from: '', Loc loc, Str '')'']] @
         (if state m = STOPPED then [TimerStart AttachTimeout] else []) @
         [SetState STARTING, ServerCreated (next_object m)] @
         (case server m of None \<Rightarrow> [] | Some old \<Rightarrow> [ServerDestroyed (server_object old)]) @
         [ServerStart (next_object m) (last_channel_id m) True,
          ProcessCreate sid (last_channel_id m) False,
          Log LS_ERROR [Str ''Failed to create session process''],
          SetState STOPPING,
          Log LS_INFO [Str ''Dettach session (from: '', Loc (Location ''onErrorOccurred'' 164), Str '')''],
          TimerStop, ProxyStopAndDettach (session_proxy m), DeleteSoonSession (session m),
          Log LS_INFO [Str ''Session process is detached''],
          SetState STOPPED]\<rparr>"
  by (simp add: attachSession_def Let_def server_replaced_and_started
        LOG_def set_state_def timer_start_def emit_def onErrorOccurred_active)

lemma onNewConnection_rejected:
  "peerFilePath channel \<noteq> worker_file_path m \<Longrightarrow>
   onNewConnection channel m =
     m\<lparr>trace := trace m @
        [Log LS_ERROR [Str ''An attempt was made to connect from an unknown application'']]\<rparr>"
  by (auto simp add: onNewConnection_def LOG_def emit_def)

lemma onNewConnection_accepted:
  "peerFilePath channel = worker_file_path m \<Longrightarrow>
   onNewConnection channel m =
     m\<lparr>state := ATTACHED,
       session := Some (DesktopSessionIpc (next_object m) channel),
       server := None,
       session_attach_timer := None,
       session_proxy := Some (DesktopSessionIpc (next_object m) channel),
       next_object := Suc (next_object m),
       trace := trace m @
         [Log LS_INFO [Str ''Session process successfully connected''], TimerStop] @
         (case server m of
            None \<Rightarrow> []
          | Some srv \<Rightarrow>
              [Log LS_INFO [Str ''IPC server already exists. Stop it''],
               ServerStop (server_object srv),
               DeleteSoonServer (srv\<lparr>listening_on := None\<rparr>)]) @
         [SessionCreated (DesktopSessionIpc (next_object m) channel)] @
         (case session m of None \<Rightarrow> [] | Some old \<Rightarrow> [SessionDestroyed old]) @
         [SetState ATTACHED,
          ProxyAttachAndStart (DesktopSessionIpc (next_object m) channel)]\<rparr>"
  by (cases "server m"; cases "session m")
    (simp_all add: onNewConnection_def collaborator_defs Let_def)

lemma DesktopSessionManager_fields:
  "state (DesktopSessionManager path) = STOPPED"
  "session (DesktopSessionManager path) = None"
  "server (DesktopSessionManager path) = None"
  "session_attach_timer (DesktopSessionManager path) = None"
  "session_proxy (DesktopSessionManager path) = None"
  "worker_file_path (DesktopSessionManager path) = path"
  "next_object (DesktopSessionManager path) = 0"
  "last_channel_id (DesktopSessionManager path) = 0"
  "trace (DesktopSessionManager path) = [Log LS_INFO [Str ''DesktopSessionManager Ctor'']]"
  by (simp_all add: DesktopSessionManager_def LOG_def emit_def)

lemma timer_fired_idle: "session_attach_timer m = None \<Longrightarrow> timer_fired m = m"
  by (simp add: timer_fired_def)

lemma timer_fired_stopped:
  "session_attach_timer m = Some cb \<Longrightarrow> state m = STOPPED \<or> state m = STOPPING \<Longrightarrow>
   timer_fired m =
     m\<lparr>session_attach_timer := None,
       trace := trace m @
         [case cb of
            AttachTimeout \<Rightarrow> Log LS_WARNING [Str ''Session attach timeout'']
          | ReattachTimeout \<Rightarrow> Log LS_ERROR [Str ''Timeout while waiting for session'']]\<rparr>"
  by (cases cb) (auto simp add: timer_fired_def LOG_def emit_def onErrorOccurred_idle)

lemma timer_fired_active:
  "session_attach_timer m = Some cb \<Longrightarrow> state m \<noteq> STOPPED \<Longrightarrow> state m \<noteq> STOPPING \<Longrightarrow>
   timer_fired m =
     m\<lparr>state := STOPPED, session := None, session_attach_timer := None,
       session_proxy := None,
       trace := trace m @
        [case cb of
            AttachTimeout \<Rightarrow> Log LS_WARNING [Str ''Session attach timeout'']
          | ReattachTimeout \<Rightarrow> Log LS_ERROR [Str ''Timeout while waiting for session''],
         SetState STOPPING,
         Log LS_INFO [Str ''Dettach session (from: '', Loc (Location ''onErrorOccurred'' 164), Str '')''],
         TimerStop, ProxyStopAndDettach (session_proxy m), DeleteSoonSession (session m),
         Log LS_INFO [Str ''Session process is detached''],
         SetState STOPPED]\<rparr>"
  by (cases cb) (simp_all add: timer_fired_def LOG_def emit_def onErrorOccurred_active)

lemma run_Nil: "run [] m = m"
  by (simp add: run_def)
lemma run_Cons: "run (e # es) m = run es (step e m)"
  by (simp add: run_def)

lemmas closed_forms = attachSession_attached attachSession_created attachSession_server_failed
  attachSession_process_failed dettachSession_idle dettachSession_stopping dettachSession_active
  onErrorOccurred_idle onErrorOccurred_active onNewConnection_accepted onNewConnection_rejected
  timer_fired_idle timer_fired_stopped timer_fired_active DesktopSessionManager_fields
  run_Nil run_Cons

lemma started_ids_append: "started_ids (xs @ ys) = started_ids xs @ started_ids ys"
  by (induction xs rule: started_ids.induct) simp_all

lemma count_list_replicate:
  "count_list (replicate n x) y = (if x = y then n else 0)"
  by (induction n) auto

lemma effects_since_append: "trace m' = trace m @ es \<Longrightarrow> effects_since m m' = es"
  by (simp add: effects_since_def)

lemma rejected_connections:
  "\<forall>channel \<in> set channels. peerFilePath channel \<noteq> worker_file_path m \<Longrightarrow>
   fold onNewConnection channels m =
     m\<lparr>trace := trace m @
        replicate (length channels)
          (Log LS_ERROR [Str ''An attempt was made to connect from an unknown application''])\<rparr>"
proof (induction channels arbitrary: m)
  case Nil
  show ?case by simp
next
  case (Cons c cs)
  let ?m = "onNewConnection c m"
  from Cons.prems have c: "peerFilePath c \<noteq> worker_file_path m" by simp
  then have m': "?m = m\<lparr>trace := trace m @
        [Log LS_ERROR [Str ''An attempt was made to connect from an unknown application'']]\<rparr>"
    by (rule onNewConnection_rejected)
  with Cons.prems have "\<forall>channel \<in> set cs. peerFilePath channel \<noteq> worker_file_path ?m"
    by simp
  then have "fold onNewConnection cs ?m =
     ?m\<lparr>trace := trace ?m @
        replicate (length cs)
          (Log LS_ERROR [Str ''An attempt was made to connect from an unknown application''])\<rparr>"
    by (rule Cons.IH)
  with m' show ?case by (simp add: replicate_app_Cons_same)
qed

section \<open>Invariants\<close>

lemma proxy_coherent_init: "proxy_coherent (DesktopSessionManager path)"
  by (simp add: proxy_coherent_def DesktopSessionManager_fields)

lemma proxy_coherent_dettachSession:
  "proxy_coherent m \<Longrightarrow> proxy_coherent (dettachSession loc m)"
  by (cases "state m")
    (simp_all add: proxy_coherent_def dettachSession_idle dettachSession_active)

lemma proxy_coherent_attachSession:
  "proxy_coherent m \<Longrightarrow> proxy_coherent (attachSession loc sid env m)"
  by (cases "state m = ATTACHED"; cases "server_start_ok env"; cases "process_create_ok env")
    (simp_all add: proxy_coherent_def attachSession_attached attachSession_created
       attachSession_server_failed attachSession_process_failed)

lemma proxy_coherent_onNewConnection:
  "proxy_coherent m \<Longrightarrow> proxy_coherent (onNewConnection channel m)"
  by (cases "peerFilePath channel = worker_file_path m")
    (simp_all add: proxy_coherent_def onNewConnection_accepted onNewConnection_rejected)

lemma proxy_coherent_timer_fired:
  "proxy_coherent m \<Longrightarrow> proxy_coherent (timer_fired m)"
  by (cases "session_attach_timer m"; cases "state m")
    (simp_all add: proxy_coherent_def timer_fired_idle timer_fired_stopped timer_fired_active)

lemma proxy_coherent_step: "proxy_coherent m \<Longrightarrow> proxy_coherent (step e m)"
proof (cases e)
  case SessionStarted
  assume "proxy_coherent m"
  with SessionStarted show ?thesis
    by (simp add: onDesktopSessionStarted_def emit_def proxy_coherent_def)
qed (simp_all add: proxy_coherent_dettachSession proxy_coherent_attachSession
       proxy_coherent_onNewConnection proxy_coherent_timer_fired onDesktopSessionStopped_def)

lemma proxy_coherent_run: "proxy_coherent m \<Longrightarrow> proxy_coherent (run es m)"
  unfolding run_def by (induction es arbitrary: m) (simp_all add: proxy_coherent_step)

lemma newest_init:
  "newest_endpoint_only (DesktopSessionManager path) \<and>
   identifiers_fresh (DesktopSessionManager path)"
  by (simp add: newest_endpoint_only_def identifiers_fresh_def DesktopSessionManager_fields)

lemma newest_dettachSession:
  "newest_endpoint_only m \<Longrightarrow> newest_endpoint_only (dettachSession loc m)"
  by (cases "state m")
    (simp_all add: newest_endpoint_only_def dettachSession_idle dettachSession_active
       dettachSession_stopping
       split: option.splits)

lemma fresh_dettachSession:
  "identifiers_fresh m \<Longrightarrow> identifiers_fresh (dettachSession loc m)"
  by (cases "state m")
    (simp_all add: identifiers_fresh_def dettachSession_idle dettachSession_active
       dettachSession_stopping started_ids_append)

lemma newest_attachSession:
  "newest_endpoint_only m \<Longrightarrow> newest_endpoint_only (attachSession loc sid env m)"
  by (cases "state m = ATTACHED"; cases "server_start_ok env"; cases "process_create_ok env")
    (simp_all add: newest_endpoint_only_def attachSession_attached attachSession_created
       attachSession_server_failed attachSession_process_failed
       split: option.splits)

lemma fresh_attachSession:
  "identifiers_fresh m \<Longrightarrow> identifiers_fresh (attachSession loc sid env m)"
  by (cases "state m = ATTACHED"; cases "server_start_ok env"; cases "process_create_ok env";
      cases "server m")
    (auto simp add: identifiers_fresh_def attachSession_attached attachSession_created
       attachSession_server_failed attachSession_process_failed started_ids_append)

lemma newest_onNewConnection:
  "newest_endpoint_only m \<Longrightarrow> newest_endpoint_only (onNewConnection channel m)"
  by (cases "peerFilePath channel = worker_file_path m")
    (simp_all add: newest_endpoint_only_def onNewConnection_accepted onNewConnection_rejected
       split: option.splits)

lemma fresh_onNewConnection:
  "identifiers_fresh m \<Longrightarrow> identifiers_fresh (onNewConnection channel m)"
  by (cases "peerFilePath channel = worker_file_path m"; cases "server m"; cases "session m")
    (simp_all add: identifiers_fresh_def onNewConnection_accepted onNewConnection_rejected
       started_ids_append)

lemma newest_timer_fired:
  "newest_endpoint_only m \<Longrightarrow> newest_endpoint_only (timer_fired m)"
  by (cases "session_attach_timer m"; cases "state m")
    (simp_all add: newest_endpoint_only_def timer_fired_idle timer_fired_stopped
       timer_fired_active
       split: option.splits)

lemma fresh_timer_fired:
  "identifiers_fresh m \<Longrightarrow> identifiers_fresh (timer_fired m)"
proof (cases "session_attach_timer m")
  case None
  assume "identifiers_fresh m"
  with None show ?thesis by (simp add: timer_fired_idle)
next
  case (Some cb)
  assume "identifiers_fresh m"
  with Some show ?thesis
    by (cases "state m"; cases cb)
      (simp_all add: identifiers_fresh_def timer_fired_stopped timer_fired_active
         started_ids_append)
qed

lemma newest_step: "newest_endpoint_only m \<Longrightarrow> newest_endpoint_only (step e m)"
  by (cases e)
    (simp_all add: newest_dettachSession newest_attachSession newest_onNewConnection
       newest_timer_fired onDesktopSessionStopped_def,
     simp add: onDesktopSessionStarted_def emit_def newest_endpoint_only_def
       split: option.splits)

lemma fresh_step: "identifiers_fresh m \<Longrightarrow> identifiers_fresh (step e m)"
  by (cases e)
    (simp_all add: fresh_dettachSession fresh_attachSession fresh_onNewConnection
       fresh_timer_fired onDesktopSessionStopped_def,
     simp add: onDesktopSessionStarted_def emit_def identifiers_fresh_def started_ids_append)

lemma newest_run: "newest_endpoint_only m \<Longrightarrow> newest_endpoint_only (run es m)"
  unfolding run_def by (induction es arbitrary: m) (simp_all add: newest_step)

lemma fresh_run: "identifiers_fresh m \<Longrightarrow> identifiers_fresh (run es m)"
  unfolding run_def by (induction es arbitrary: m) (simp_all add: fresh_step)

section \<open>The three flags of the desktop environment\<close>

lemma revertAll_flags:
  "wallpaper (revertAll env d) = wallpaper d"
  "font_smoothing (revertAll env d) = font_smoothing d"
  "effects (revertAll env d) = effects d"
  by (simp_all add: revertAll_def call_def Let_def)

lemma applyNewSettings_flags:
  "wallpaper (applyNewSettings d) = wallpaper d"
  "font_smoothing (applyNewSettings d) = font_smoothing d"
  "effects (applyNewSettings d) = effects d"
  by (simp_all add: applyNewSettings_def disableWallpaper_def disableFontSmoothing_def
        disableEffects_def call_def Let_def)

section \<open>Properties of the session manager\<close>

text \<open>
  C1, as amended. After every call of an execution that starts at the constructor (any
  sequence of \<open>attachSession\<close> and \<open>dettachSession\<close> calls, and of the callbacks too),
  the proxy is bound to at most one Session, and it is the one the controller owns.
  Exactly one is bound whenever the state is \<open>Detached\<close> or \<open>Attached\<close>, and none when
  it is \<open>Stopped\<close>. In \<open>Starting\<close> the proxy keeps what it had: the Fake Session of
  an earlier detach, or nothing when the attempt began in \<open>Stopped\<close>, since
  \<open>attachSession\<close> creates no Session.
\<close>

theorem proxy_binding_after_each_call:
  "bound_sessions (run es (DesktopSessionManager path)) \<le> 1
   \<and> session_proxy (run es (DesktopSessionManager path)) =
       session (run es (DesktopSessionManager path))
   \<and> (state (run es (DesktopSessionManager path)) = DETACHED \<or>
       state (run es (DesktopSessionManager path)) = ATTACHED \<longrightarrow>
         bound_sessions (run es (DesktopSessionManager path)) = 1)
   \<and> (state (run es (DesktopSessionManager path)) = STOPPED \<longrightarrow>
         bound_sessions (run es (DesktopSessionManager path)) = 0)
   \<and> (state (attachSession loc sid env m) = STARTING \<longrightarrow>
         session_proxy (attachSession loc sid env m) = session_proxy m)"
proof -
  let ?r = "run es (DesktopSessionManager path)"
  have "proxy_coherent ?r"
    by (rule proxy_coherent_run [OF proxy_coherent_init])
  then have reached:
    "bound_sessions ?r \<le> 1 \<and> session_proxy ?r = session ?r
     \<and> (state ?r = DETACHED \<or> state ?r = ATTACHED \<longrightarrow> bound_sessions ?r = 1)
     \<and> (state ?r = STOPPED \<longrightarrow> bound_sessions ?r = 0)"
    by (cases "state ?r")
      (auto simp add: proxy_coherent_def bound_sessions_def split: option.splits)
  have kept: "state (attachSession loc sid env m) = STARTING \<longrightarrow>
              session_proxy (attachSession loc sid env m) = session_proxy m"
    by (cases "state m = ATTACHED"; cases "server_start_ok env"; cases "process_create_ok env")
      (simp_all add: attachSession_attached attachSession_created
         attachSession_server_failed attachSession_process_failed)
  from reached kept show ?thesis
    by blast
qed

text \<open>The property above at a concrete input.\<close>

theorem proxy_binding_after_each_call_witness:
  "state (run [AttachSession (Location ''caller'' 1) 7
                 \<lparr>server_start_ok = True, process_create_ok = True\<rparr>,
               DettachSession (Location ''caller'' 2)]
            (DesktopSessionManager ''C:/aspia/aspia_desktop_agent.exe'')) = DETACHED
   \<and> bound_sessions (run [AttachSession (Location ''caller'' 1) 7
                 \<lparr>server_start_ok = True, process_create_ok = True\<rparr>,
               DettachSession (Location ''caller'' 2)]
            (DesktopSessionManager ''C:/aspia/aspia_desktop_agent.exe'')) = 1"
proof -
  let ?m = "run [AttachSession (Location ''caller'' 1) 7
                 \<lparr>server_start_ok = True, process_create_ok = True\<rparr>,
               DettachSession (Location ''caller'' 2)]
            (DesktopSessionManager ''C:/aspia/aspia_desktop_agent.exe'')"
  have h: "state ?m = DETACHED"
    by (simp add: closed_forms)
  from proxy_binding_after_each_call [of "[AttachSession (Location ''caller'' 1) 7
                 \<lparr>server_start_ok = True, process_create_ok = True\<rparr>,
               DettachSession (Location ''caller'' 2)]" "''C:/aspia/aspia_desktop_agent.exe''"] h
  show ?thesis by blast
qed

text \<open>
  C1 as stated fails on the first call: \<open>attachSession\<close> on a fresh controller leaves
  \<open>Stopped\<close> for \<open>Starting\<close> and the proxy is bound to nothing.
\<close>

theorem attachSession_from_stopped_binds_nothing:
  "state (attachSession (Location ''caller'' 1) 7
            \<lparr>server_start_ok = True, process_create_ok = True\<rparr>
            (DesktopSessionManager ''C:/aspia/aspia_desktop_agent.exe'')) = STARTING
   \<and> bound_sessions (attachSession (Location ''caller'' 1) 7
            \<lparr>server_start_ok = True, process_create_ok = True\<rparr>
            (DesktopSessionManager ''C:/aspia/aspia_desktop_agent.exe'')) = 0"
  by (simp add: attachSession_created DesktopSessionManager_fields bound_sessions_def)

text \<open>
  C2. A call to \<open>onNewConnection\<close> whose peer's executable path differs from the expected
  worker path binds nothing and leaves the controller as it was: the state, the owned
  session, the proxy's binding, the timer and the channel server are the ones before the
  call. The only thing the call does is write one error line to the log. In particular
  an attach attempt in progress is not torn down.
\<close>

theorem onNewConnection_unknown_peer_discarded:
  assumes "peerFilePath channel \<noteq> worker_file_path m"
  shows "onNewConnection channel m =
           m\<lparr>trace := trace m @
             [Log LS_ERROR
                [Str ''An attempt was made to connect from an unknown application'']]\<rparr>
         \<and> configuration (onNewConnection channel m) = configuration m
         \<and> visible_effects (onNewConnection channel m) = visible_effects m"
  using assms
  by (simp add: onNewConnection_rejected configuration_def visible_effects_def)

theorem onNewConnection_unknown_peer_discarded_witness:
  "peerFilePath \<lparr>peerFilePath = ''C:/tmp/other.exe'', accepted_on = 0\<rparr> \<noteq>
     worker_file_path
       (attachSession (Location ''caller'' 1) 7
          \<lparr>server_start_ok = True, process_create_ok = True\<rparr>
          (DesktopSessionManager ''C:/aspia/aspia_desktop_agent.exe''))
   \<and> configuration
        (onNewConnection \<lparr>peerFilePath = ''C:/tmp/other.exe'', accepted_on = 0\<rparr>
          (attachSession (Location ''caller'' 1) 7
             \<lparr>server_start_ok = True, process_create_ok = True\<rparr>
             (DesktopSessionManager ''C:/aspia/aspia_desktop_agent.exe'')))
      = (STARTING, None, Some \<lparr>server_object = 0, listening_on = Some 0\<rparr>,
         Some AttachTimeout, None)"
proof -
  let ?m = "attachSession (Location ''caller'' 1) 7
              \<lparr>server_start_ok = True, process_create_ok = True\<rparr>
              (DesktopSessionManager ''C:/aspia/aspia_desktop_agent.exe'')"
  let ?c = "\<lparr>peerFilePath = ''C:/tmp/other.exe'', accepted_on = 0\<rparr>"
  have h: "peerFilePath ?c \<noteq> worker_file_path ?m"
    by (simp add: attachSession_created DesktopSessionManager_fields)
  have "configuration ?m =
          (STARTING, None, Some \<lparr>server_object = 0, listening_on = Some 0\<rparr>,
           Some AttachTimeout, None)"
    by (simp add: attachSession_created DesktopSessionManager_fields configuration_def)
  moreover from onNewConnection_unknown_peer_discarded [OF h]
  have "configuration (onNewConnection ?c ?m) = configuration ?m"
    by (elim conjE)
  ultimately show ?thesis
    using h by (simp only: simp_thms)
qed

text \<open>
  C3, as amended. In every execution the identifiers on which servers are started are
  pairwise distinct (so two consecutive \<open>attachSession\<close> calls never use the same one),
  and only the identifier drawn last can reach \<open>onNewConnection\<close>: a peer that connects
  on any other identifier is not handed over, because the server of a superseded attempt
  was destroyed when it was replaced and the server of an accepted connection was
  stopped. The server of the last attempt is not stopped when that attempt fails or times
  out: the timer firing, \<open>onErrorOccurred\<close> and \<open>dettachSession\<close> leave \<open>server_\<close> as it
  is, \<open>attachSession\<close> never stops a server, and after a spawn failure the controller is
  \<open>Stopped\<close> while its new server listens on the identifier of the failed attempt (after
  a failure to start, the new server object is held and listens on nothing).
  \<open>onNewConnection\<close> checks the peer's executable path only, so a connection from the
  worker executable on a server that still listens is bound, whatever the state.
\<close>

theorem stale_identifier_not_delivered:
  "distinct (started_ids (trace (run es (DesktopSessionManager path))))
   \<and> (Suc cid \<noteq> last_channel_id (run es (DesktopSessionManager path)) \<longrightarrow>
        inbound_connection cid peer (run es (DesktopSessionManager path)) =
          run es (DesktopSessionManager path))
   \<and> server (timer_fired m) = server m
   \<and> (server m = Some srv \<and> listening_on srv = Some cid' \<and> peer' = worker_file_path m \<longrightarrow>
        configuration (inbound_connection cid' peer' m) =
          (ATTACHED,
           Some (DesktopSessionIpc (next_object m) \<lparr>peerFilePath = peer', accepted_on = cid'\<rparr>),
           None, None,
           Some (DesktopSessionIpc (next_object m) \<lparr>peerFilePath = peer', accepted_on = cid'\<rparr>)))
   \<and> server (onErrorOccurred m) = server m
   \<and> server (dettachSession loc m) = server m
   \<and> ServerStop n \<notin> set (effects_since m (timer_fired m))
   \<and> ServerStop n \<notin> set (effects_since m (onErrorOccurred m))
   \<and> ServerStop n \<notin> set (effects_since m (attachSession loc sid env m))
   \<and> (state m \<noteq> ATTACHED \<and> server_start_ok env \<and> \<not> process_create_ok env \<longrightarrow>
        state (attachSession loc sid env m) = STOPPED
        \<and> server (attachSession loc sid env m) =
            Some \<lparr>server_object = next_object m, listening_on = Some (last_channel_id m)\<rparr>)
   \<and> (state m \<noteq> ATTACHED \<and> \<not> server_start_ok env \<longrightarrow>
        state (attachSession loc sid env m) = STOPPED
        \<and> server (attachSession loc sid env m) =
            Some \<lparr>server_object = next_object m, listening_on = None\<rparr>)"
proof -
  let ?r = "run es (DesktopSessionManager path)"
  have "identifiers_fresh ?r"
    using newest_init by (simp add: fresh_run)
  moreover have "newest_endpoint_only ?r"
    using newest_init by (simp add: newest_run)
  ultimately have reached:
    "distinct (started_ids (trace ?r))
     \<and> (Suc cid \<noteq> last_channel_id ?r \<longrightarrow> inbound_connection cid peer ?r = ?r)"
    by (auto simp add: identifiers_fresh_def newest_endpoint_only_def inbound_connection_def
          split: option.splits)
  have kept: "server (timer_fired m) = server m"
    by (cases "session_attach_timer m"; cases "state m")
      (simp_all add: timer_fired_idle timer_fired_stopped timer_fired_active)
  have accepted:
    "server m = Some srv \<and> listening_on srv = Some cid' \<and> peer' = worker_file_path m \<longrightarrow>
     configuration (inbound_connection cid' peer' m) =
       (ATTACHED,
        Some (DesktopSessionIpc (next_object m) \<lparr>peerFilePath = peer', accepted_on = cid'\<rparr>),
        None, None,
        Some (DesktopSessionIpc (next_object m) \<lparr>peerFilePath = peer', accepted_on = cid'\<rparr>))"
    by (simp add: inbound_connection_def onNewConnection_accepted configuration_def)
  have kept_error: "server (onErrorOccurred m) = server m"
    by (cases "state m") (simp_all add: onErrorOccurred_idle onErrorOccurred_active)
  have kept_dettach: "server (dettachSession loc m) = server m"
    by (cases "state m")
      (simp_all add: dettachSession_idle dettachSession_stopping dettachSession_active)
  have no_stop_timer: "ServerStop n \<notin> set (effects_since m (timer_fired m))"
  proof (cases "session_attach_timer m")
    case None
    then show ?thesis
      by (simp add: timer_fired_idle effects_since_def)
  next
    case (Some cb)
    then show ?thesis
      by (cases "state m"; cases cb)
        (simp_all add: timer_fired_stopped timer_fired_active effects_since_def)
  qed
  have no_stop_error: "ServerStop n \<notin> set (effects_since m (onErrorOccurred m))"
    by (cases "state m")
      (simp_all add: onErrorOccurred_idle onErrorOccurred_active effects_since_def)
  have no_stop_attach:
    "ServerStop n \<notin> set (effects_since m (attachSession loc sid env m))"
    by (cases "state m = ATTACHED"; cases "server_start_ok env"; cases "process_create_ok env";
        cases "server m")
      (simp_all add: attachSession_attached attachSession_created
         attachSession_server_failed attachSession_process_failed effects_since_def)
  have spawn_failed:
    "state m \<noteq> ATTACHED \<and> server_start_ok env \<and> \<not> process_create_ok env \<longrightarrow>
     state (attachSession loc sid env m) = STOPPED
     \<and> server (attachSession loc sid env m) =
         Some \<lparr>server_object = next_object m, listening_on = Some (last_channel_id m)\<rparr>"
    by (simp add: attachSession_process_failed)
  have start_failed:
    "state m \<noteq> ATTACHED \<and> \<not> server_start_ok env \<longrightarrow>
     state (attachSession loc sid env m) = STOPPED
     \<and> server (attachSession loc sid env m) =
         Some \<lparr>server_object = next_object m, listening_on = None\<rparr>"
    by (simp add: attachSession_server_failed)
  from reached kept accepted kept_error kept_dettach no_stop_timer no_stop_error
    no_stop_attach spawn_failed start_failed
  show ?thesis
    by blast
qed

text \<open>The property above at a concrete input.\<close>

theorem stale_identifier_not_delivered_witness:
  "distinct (started_ids (trace (run
        [AttachSession (Location ''caller'' 1) 7
           \<lparr>server_start_ok = True, process_create_ok = True\<rparr>,
         AttachSession (Location ''caller'' 1) 7
           \<lparr>server_start_ok = True, process_create_ok = True\<rparr>]
        (DesktopSessionManager ''C:/aspia/aspia_desktop_agent.exe''))))
   \<and> Suc 0 \<noteq> last_channel_id (run
        [AttachSession (Location ''caller'' 1) 7
           \<lparr>server_start_ok = True, process_create_ok = True\<rparr>,
         AttachSession (Location ''caller'' 1) 7
           \<lparr>server_start_ok = True, process_create_ok = True\<rparr>]
        (DesktopSessionManager ''C:/aspia/aspia_desktop_agent.exe''))
   \<and> inbound_connection 0 ''C:/aspia/aspia_desktop_agent.exe'' (run
        [AttachSession (Location ''caller'' 1) 7
           \<lparr>server_start_ok = True, process_create_ok = True\<rparr>,
         AttachSession (Location ''caller'' 1) 7
           \<lparr>server_start_ok = True, process_create_ok = True\<rparr>]
        (DesktopSessionManager ''C:/aspia/aspia_desktop_agent.exe''))
      = run
        [AttachSession (Location ''caller'' 1) 7
           \<lparr>server_start_ok = True, process_create_ok = True\<rparr>,
         AttachSession (Location ''caller'' 1) 7
           \<lparr>server_start_ok = True, process_create_ok = True\<rparr>]
        (DesktopSessionManager ''C:/aspia/aspia_desktop_agent.exe'')
   \<and> state (attachSession (Location ''caller'' 1) 7
              \<lparr>server_start_ok = True, process_create_ok = False\<rparr>
              (DesktopSessionManager ''C:/aspia/aspia_desktop_agent.exe'')) = STOPPED
   \<and> server (attachSession (Location ''caller'' 1) 7
              \<lparr>server_start_ok = True, process_create_ok = False\<rparr>
              (DesktopSessionManager ''C:/aspia/aspia_desktop_agent.exe''))
       = Some \<lparr>server_object = 0, listening_on = Some 0\<rparr>"
proof -
  let ?es = "[AttachSession (Location ''caller'' 1) 7
           \<lparr>server_start_ok = True, process_create_ok = True\<rparr>,
         AttachSession (Location ''caller'' 1) 7
           \<lparr>server_start_ok = True, process_create_ok = True\<rparr>]"
  let ?p = "''C:/aspia/aspia_desktop_agent.exe''"
  let ?m = "run ?es (DesktopSessionManager ?p)"
  let ?fail = "\<lparr>server_start_ok = True, process_create_ok = False\<rparr>"
  have h: "Suc 0 \<noteq> last_channel_id ?m"
    by (simp add: closed_forms)
  have g: "state (DesktopSessionManager ?p) \<noteq> ATTACHED \<and> server_start_ok ?fail
           \<and> \<not> process_create_ok ?fail"
    by (simp add: DesktopSessionManager_fields)
  have z: "next_object (DesktopSessionManager ?p) = 0"
    "last_channel_id (DesktopSessionManager ?p) = 0"
    by (simp_all add: DesktopSessionManager_fields)
  note t = stale_identifier_not_delivered
             [where es = ?es and path = ?p and cid = 0 and peer = ?p
                and m = "DesktopSessionManager ?p" and loc = "Location ''caller'' 1"
                and sid = 7 and env = ?fail]
  from t h have reached:
    "distinct (started_ids (trace ?m)) \<and> inbound_connection 0 ?p ?m = ?m"
    by blast
  from t g have
    "state (attachSession (Location ''caller'' 1) 7 ?fail (DesktopSessionManager ?p)) = STOPPED
     \<and> server (attachSession (Location ''caller'' 1) 7 ?fail (DesktopSessionManager ?p)) =
         Some \<lparr>server_object = next_object (DesktopSessionManager ?p),
               listening_on = Some (last_channel_id (DesktopSessionManager ?p))\<rparr>"
    by blast
  then have failed:
    "state (attachSession (Location ''caller'' 1) 7 ?fail (DesktopSessionManager ?p)) = STOPPED
     \<and> server (attachSession (Location ''caller'' 1) 7 ?fail (DesktopSessionManager ?p)) =
         Some \<lparr>server_object = 0, listening_on = Some 0\<rparr>"
    by (simp only: z)
  from reached h failed show ?thesis
    by blast
qed

text \<open>
  C3 as stated fails: after \<open>attachSession\<close> and the attach timeout the controller is
  \<open>Stopped\<close>, its server still listens on the identifier of the attempt that timed out,
  and a connection from the worker executable on that identifier is bound as the
  Session.
\<close>

theorem timed_out_attempt_still_accepts:
  "state (run [AttachSession (Location ''caller'' 1) 7
                 \<lparr>server_start_ok = True, process_create_ok = True\<rparr>, TimerFired]
            (DesktopSessionManager ''C:/aspia/aspia_desktop_agent.exe'')) = STOPPED
   \<and> server (run [AttachSession (Location ''caller'' 1) 7
                 \<lparr>server_start_ok = True, process_create_ok = True\<rparr>, TimerFired]
            (DesktopSessionManager ''C:/aspia/aspia_desktop_agent.exe''))
       = Some \<lparr>server_object = 0, listening_on = Some 0\<rparr>
   \<and> configuration
        (inbound_connection 0 ''C:/aspia/aspia_desktop_agent.exe''
          (run [AttachSession (Location ''caller'' 1) 7
                 \<lparr>server_start_ok = True, process_create_ok = True\<rparr>, TimerFired]
            (DesktopSessionManager ''C:/aspia/aspia_desktop_agent.exe'')))
       = (ATTACHED,
          Some (DesktopSessionIpc 1
                 \<lparr>peerFilePath = ''C:/aspia/aspia_desktop_agent.exe'', accepted_on = 0\<rparr>),
          None, None,
          Some (DesktopSessionIpc 1
                 \<lparr>peerFilePath = ''C:/aspia/aspia_desktop_agent.exe'', accepted_on = 0\<rparr>))"
  by (simp add: closed_forms inbound_connection_def configuration_def)

text \<open>
  C4, as amended. When \<open>onNewConnection\<close> accepts a connection it stops the timer, stops
  the Channel Server and posts the server's deletion to the task runner, creates the
  Channel-backed Session, sets the state to \<open>Attached\<close> and binds the new Session into
  the proxy. The Session owned before (if any) is destroyed within the call, by the
  assignment to \<open>session_\<close>, right after the new one is constructed and before the proxy
  is rebound; no deferred deletion is posted for it. What this call destroys
  asynchronously is the Channel Server.
\<close>

theorem onNewConnection_destroys_previous_inline:
  assumes "peerFilePath channel = worker_file_path m"
  shows "effects_since m (onNewConnection channel m) =
         [Log LS_INFO [Str ''Session process successfully connected''], TimerStop] @
         (case server m of
            None \<Rightarrow> []
          | Some srv \<Rightarrow>
              [Log LS_INFO [Str ''IPC server already exists. Stop it''],
               ServerStop (server_object srv),
               DeleteSoonServer (srv\<lparr>listening_on := None\<rparr>)]) @
         [SessionCreated (DesktopSessionIpc (next_object m) channel)] @
         (case session m of None \<Rightarrow> [] | Some old \<Rightarrow> [SessionDestroyed old]) @
         [SetState ATTACHED,
          ProxyAttachAndStart (DesktopSessionIpc (next_object m) channel)]
       \<and> DeleteSoonSession old \<notin> set (effects_since m (onNewConnection channel m))
       \<and> session_proxy (onNewConnection channel m) =
           Some (DesktopSessionIpc (next_object m) channel)"
  using assms
  by (cases "server m"; cases "session m")
    (simp_all add: onNewConnection_accepted effects_since_def)

text \<open>The property above at a concrete input.\<close>

theorem onNewConnection_destroys_previous_inline_witness:
  "peerFilePath \<lparr>peerFilePath = ''C:/aspia/aspia_desktop_agent.exe'', accepted_on = 1\<rparr> =
     worker_file_path
       (run [AttachSession (Location ''caller'' 1) 7
               \<lparr>server_start_ok = True, process_create_ok = True\<rparr>,
             DettachSession (Location ''caller'' 2),
             AttachSession (Location ''caller'' 1) 7
               \<lparr>server_start_ok = True, process_create_ok = True\<rparr>]
          (DesktopSessionManager ''C:/aspia/aspia_desktop_agent.exe''))
   \<and> DeleteSoonSession (Some (DesktopSessionFake 1)) \<notin> set
        (effects_since
          (run [AttachSession (Location ''caller'' 1) 7
                  \<lparr>server_start_ok = True, process_create_ok = True\<rparr>,
                DettachSession (Location ''caller'' 2),
                AttachSession (Location ''caller'' 1) 7
                  \<lparr>server_start_ok = True, process_create_ok = True\<rparr>]
             (DesktopSessionManager ''C:/aspia/aspia_desktop_agent.exe''))
          (onNewConnection
             \<lparr>peerFilePath = ''C:/aspia/aspia_desktop_agent.exe'', accepted_on = 1\<rparr>
             (run [AttachSession (Location ''caller'' 1) 7
                     \<lparr>server_start_ok = True, process_create_ok = True\<rparr>,
                   DettachSession (Location ''caller'' 2),
                   AttachSession (Location ''caller'' 1) 7
                     \<lparr>server_start_ok = True, process_create_ok = True\<rparr>]
                (DesktopSessionManager ''C:/aspia/aspia_desktop_agent.exe''))))
   \<and> session_proxy
        (onNewConnection
           \<lparr>peerFilePath = ''C:/aspia/aspia_desktop_agent.exe'', accepted_on = 1\<rparr>
           (run [AttachSession (Location ''caller'' 1) 7
                   \<lparr>server_start_ok = True, process_create_ok = True\<rparr>,
                 DettachSession (Location ''caller'' 2),
                 AttachSession (Location ''caller'' 1) 7
                   \<lparr>server_start_ok = True, process_create_ok = True\<rparr>]
              (DesktopSessionManager ''C:/aspia/aspia_desktop_agent.exe'')))
      = Some (DesktopSessionIpc 3
          \<lparr>peerFilePath = ''C:/aspia/aspia_desktop_agent.exe'', accepted_on = 1\<rparr>)"
proof -
  let ?m = "run [AttachSession (Location ''caller'' 1) 7
                   \<lparr>server_start_ok = True, process_create_ok = True\<rparr>,
                 DettachSession (Location ''caller'' 2),
                 AttachSession (Location ''caller'' 1) 7
                   \<lparr>server_start_ok = True, process_create_ok = True\<rparr>]
              (DesktopSessionManager ''C:/aspia/aspia_desktop_agent.exe'')"
  let ?c = "\<lparr>peerFilePath = ''C:/aspia/aspia_desktop_agent.exe'', accepted_on = 1\<rparr>"
  have h: "peerFilePath ?c = worker_file_path ?m"
    by (simp add: closed_forms)
  have n: "next_object ?m = 3"
    by (simp add: closed_forms)
  note t = onNewConnection_destroys_previous_inline
             [OF h, of "Some (DesktopSessionFake 1)"]
  from t have "DeleteSoonSession (Some (DesktopSessionFake 1)) \<notin>
                 set (effects_since ?m (onNewConnection ?c ?m))"
    by (elim conjE)
  moreover from t have "session_proxy (onNewConnection ?c ?m) =
                          Some (DesktopSessionIpc (next_object ?m) ?c)"
    by (elim conjE)
  then have "session_proxy (onNewConnection ?c ?m) = Some (DesktopSessionIpc 3 ?c)"
    by (simp only: n)
  ultimately show ?thesis
    using h by (intro conjI)
qed

text \<open>
  C4 as stated fails on the re-attach path: after attach, detach and attach again the
  proxy is bound to a Fake Session; the accepting call destroys that Fake Session inline
  and posts no deferred deletion for it.
\<close>

theorem previous_session_destroyed_inline:
  "session_proxy (run [AttachSession (Location ''caller'' 1) 7
                 \<lparr>server_start_ok = True, process_create_ok = True\<rparr>,
               DettachSession (Location ''caller'' 2),
               AttachSession (Location ''caller'' 1) 7
                 \<lparr>server_start_ok = True, process_create_ok = True\<rparr>]
            (DesktopSessionManager ''C:/aspia/aspia_desktop_agent.exe''))
     = Some (DesktopSessionFake 1)
   \<and> effects_since
         (run [AttachSession (Location ''caller'' 1) 7
                 \<lparr>server_start_ok = True, process_create_ok = True\<rparr>,
               DettachSession (Location ''caller'' 2),
               AttachSession (Location ''caller'' 1) 7
                 \<lparr>server_start_ok = True, process_create_ok = True\<rparr>]
            (DesktopSessionManager ''C:/aspia/aspia_desktop_agent.exe''))
         (onNewConnection \<lparr>peerFilePath = ''C:/aspia/aspia_desktop_agent.exe'', accepted_on = 1\<rparr>
           (run [AttachSession (Location ''caller'' 1) 7
                 \<lparr>server_start_ok = True, process_create_ok = True\<rparr>,
               DettachSession (Location ''caller'' 2),
               AttachSession (Location ''caller'' 1) 7
                 \<lparr>server_start_ok = True, process_create_ok = True\<rparr>]
            (DesktopSessionManager ''C:/aspia/aspia_desktop_agent.exe'')))
     = [Log LS_INFO [Str ''Session process successfully connected''],
        TimerStop,
        Log LS_INFO [Str ''IPC server already exists. Stop it''],
        ServerStop 2,
        DeleteSoonServer \<lparr>server_object = 2, listening_on = None\<rparr>,
        SessionCreated (DesktopSessionIpc 3
          \<lparr>peerFilePath = ''C:/aspia/aspia_desktop_agent.exe'', accepted_on = 1\<rparr>),
        SessionDestroyed (DesktopSessionFake 1),
        SetState ATTACHED,
        ProxyAttachAndStart (DesktopSessionIpc 3
          \<lparr>peerFilePath = ''C:/aspia/aspia_desktop_agent.exe'', accepted_on = 1\<rparr>)]"
  by (simp add: closed_forms effects_since_def)

text \<open>
  C5. \<open>attachSession\<close> is called in \<open>Stopped\<close> (which arms the attach timer), or in
  \<open>Starting\<close> while the attach timer is pending; the server starts and the process is
  spawned; any number of connections from other executables arrive; then the timer
  fires. The controller is then \<open>Stopped\<close>, and among everything done since the call
  there is exactly one timeout warning (the error report the code has: the delegate
  interface has no error callback), one assignment of \<open>Stopping\<close> and one of \<open>Stopped\<close>:
  the error path ran once. The timer is no longer armed, so it cannot fire again, and a
  further \<open>onErrorOccurred\<close> does nothing.
\<close>

theorem attach_timeout_stops_once:
  fixes m :: manager and loc :: location and sid :: session_id and env :: attach_env
    and channels :: "ipc_channel list"
  assumes "state m = STOPPED \<or>
           (state m = STARTING \<and> session_attach_timer m = Some AttachTimeout)"
    and "server_start_ok env" and "process_create_ok env"
    and "\<forall>channel \<in> set channels. peerFilePath channel \<noteq> worker_file_path m"
  defines "m' \<equiv> timer_fired (fold onNewConnection channels (attachSession loc sid env m))"
  shows "state m' = STOPPED
       \<and> session_attach_timer m' = None
       \<and> count_list (effects_since m m') (Log LS_WARNING [Str ''Session attach timeout'']) = 1
       \<and> count_list (effects_since m m') (SetState STOPPING) = 1
       \<and> count_list (effects_since m m') (SetState STOPPED) = 1
       \<and> timer_fired m' = m'
       \<and> onErrorOccurred m' = m'"
proof -
  let ?a = "attachSession loc sid env m"
  let ?r = "fold onNewConnection channels ?a"
  let ?reject = "Log LS_ERROR [Str ''An attempt was made to connect from an unknown application'']"
  let ?error_path =
    "[Log LS_WARNING [Str ''Session attach timeout''],
      SetState STOPPING,
      Log LS_INFO [Str ''Dettach session (from: '', Loc (Location ''onErrorOccurred'' 164), Str '')''],
      TimerStop, ProxyStopAndDettach (session_proxy ?r), DeleteSoonSession (session ?r),
      Log LS_INFO [Str ''Session process is detached''],
      SetState STOPPED]"
  from assms(1) have n: "state m \<noteq> ATTACHED" by auto
  note a = attachSession_created [OF n assms(2,3), of loc sid]
  from assms(1) have a_state: "state ?a = STARTING"
    and a_timer: "session_attach_timer ?a = Some AttachTimeout"
    and a_path: "worker_file_path ?a = worker_file_path m"
    unfolding a by auto
  obtain A where a_trace: "trace ?a = trace m @ A"
    and a_count: "count_list A (Log LS_WARNING [Str ''Session attach timeout'']) = 0"
      "count_list A (SetState STOPPING) = 0" "count_list A (SetState STOPPED) = 0"
  proof
    let ?A = "[Log LS_INFO [Str ''Attach session with ID: '', Num sid, Str '' (from: '', Loc loc, Str '')'']] @
         (if state m = STOPPED then [TimerStart AttachTimeout] else []) @
         [SetState STARTING, ServerCreated (next_object m)] @
         (case server m of None \<Rightarrow> [] | Some old \<Rightarrow> [ServerDestroyed (server_object old)]) @
         [ServerStart (next_object m) (last_channel_id m) True,
          ProcessCreate sid (last_channel_id m) True,
          Log LS_INFO [Str ''Desktop session process created'']]"
    show "trace ?a = trace m @ ?A" unfolding a by simp
    show "count_list ?A (Log LS_WARNING [Str ''Session attach timeout'']) = 0"
      "count_list ?A (SetState STOPPING) = 0" "count_list ?A (SetState STOPPED) = 0"
      by (cases "server m"; simp)+
  qed
  from assms(4) a_path
  have "\<forall>channel \<in> set channels. peerFilePath channel \<noteq> worker_file_path ?a"
    by simp
  then have r: "?r = ?a\<lparr>trace := trace ?a @ replicate (length channels) ?reject\<rparr>"
    by (rule rejected_connections)
  have r_state: "state ?r = STARTING" and r_timer: "session_attach_timer ?r = Some AttachTimeout"
    and r_trace: "trace ?r = trace m @ A @ replicate (length channels) ?reject"
    unfolding r by (simp_all add: a_state a_timer a_trace)
  from r_state r_timer
  have f: "m' = ?r\<lparr>state := STOPPED, session := None, session_attach_timer := None,
                   session_proxy := None, trace := trace ?r @ ?error_path\<rparr>"
    unfolding m'_def by (simp add: timer_fired_active)
  have st: "state m' = STOPPED" and tm: "session_attach_timer m' = None"
    unfolding f by simp_all
  have "trace m' = trace m @ (A @ replicate (length channels) ?reject @ ?error_path)"
    unfolding f by (simp add: r_trace)
  then have e: "effects_since m m' = A @ replicate (length channels) ?reject @ ?error_path"
    by (rule effects_since_append)
  have c: "count_list (effects_since m m') (Log LS_WARNING [Str ''Session attach timeout'']) = 1"
    "count_list (effects_since m m') (SetState STOPPING) = 1"
    "count_list (effects_since m m') (SetState STOPPED) = 1"
    unfolding e by (simp_all add: a_count count_list_replicate)
  from st tm have i: "timer_fired m' = m'" "onErrorOccurred m' = m'"
    by (simp_all add: timer_fired_idle onErrorOccurred_idle)
  from st tm c i show ?thesis by simp
qed

text \<open>The property above at a concrete input.\<close>

theorem attach_timeout_stops_once_witness:
  "state (timer_fired (fold onNewConnection
            [\<lparr>peerFilePath = ''C:/tmp/other.exe'', accepted_on = 0\<rparr>]
            (attachSession (Location ''caller'' 1) 7
               \<lparr>server_start_ok = True, process_create_ok = True\<rparr>
               (DesktopSessionManager ''C:/aspia/aspia_desktop_agent.exe'')))) = STOPPED
   \<and> count_list
        (effects_since (DesktopSessionManager ''C:/aspia/aspia_desktop_agent.exe'')
          (timer_fired (fold onNewConnection
            [\<lparr>peerFilePath = ''C:/tmp/other.exe'', accepted_on = 0\<rparr>]
            (attachSession (Location ''caller'' 1) 7
               \<lparr>server_start_ok = True, process_create_ok = True\<rparr>
               (DesktopSessionManager ''C:/aspia/aspia_desktop_agent.exe'')))))
        (SetState STOPPED) = 1"
proof -
  let ?m = "DesktopSessionManager ''C:/aspia/aspia_desktop_agent.exe''"
  let ?env = "\<lparr>server_start_ok = True, process_create_ok = True\<rparr>"
  let ?cs = "[\<lparr>peerFilePath = ''C:/tmp/other.exe'', accepted_on = 0\<rparr>]"
  have 1: "state ?m = STOPPED \<or>
           (state ?m = STARTING \<and> session_attach_timer ?m = Some AttachTimeout)"
    by (simp add: DesktopSessionManager_fields)
  have 2: "server_start_ok ?env" and 3: "process_create_ok ?env" by simp_all
  have 4: "\<forall>channel \<in> set ?cs. peerFilePath channel \<noteq> worker_file_path ?m"
    by (simp add: DesktopSessionManager_fields)
  from attach_timeout_stops_once [OF 1 2 3 4, of "Location ''caller'' 1" 7] show ?thesis by blast
qed

text \<open>
  C6. Calling \<open>dettachSession\<close> twice in a row leaves the controller, the timer and the
  proxy in the configuration one call leaves them in, whatever the state before (the
  second call only writes a log line, or in \<open>Stopping\<close> repeats the teardown of what is
  already torn down). A second \<open>onErrorOccurred\<close> changes nothing at all.
\<close>

theorem dettachSession_onErrorOccurred_idempotent:
  "configuration (dettachSession loc2 (dettachSession loc1 m)) =
     configuration (dettachSession loc1 m)
   \<and> onErrorOccurred (onErrorOccurred m) = onErrorOccurred m"
proof
  show "configuration (dettachSession loc2 (dettachSession loc1 m)) =
          configuration (dettachSession loc1 m)"
    by (cases "state m")
      (simp_all add: dettachSession_idle dettachSession_stopping dettachSession_active
         configuration_def)
  show "onErrorOccurred (onErrorOccurred m) = onErrorOccurred m"
    by (cases "state m") (simp_all add: onErrorOccurred_idle onErrorOccurred_active)
qed

text \<open>
  C7, as amended. The destructor, in \<open>Attached\<close> as in any other state, sets the state
  to \<open>Stopping\<close> and it stays \<open>Stopping\<close> until the object is gone: \<open>Stopped\<close> is never
  assigned. The teardown cancels the timer, unbinds the proxy and posts the deletion of
  the session; it creates no Fake Session and arms no timer.
\<close>

theorem destructor_stays_stopping:
  "state (destructor m) = STOPPING
   \<and> configuration (destructor m) = (STOPPING, None, server m, None, None)
   \<and> effects_since m (destructor m) =
       [Log LS_INFO [Str ''DesktopSessionManager Dtor''],
        SetState STOPPING,
        Log LS_INFO [Str ''Dettach session (from: '',
                     Loc (Location ''~DesktopSessionManager'' 48), Str '')''],
        TimerStop, ProxyStopAndDettach (session_proxy m), DeleteSoonSession (session m),
        Log LS_INFO [Str ''Session process is detached'']]"
  by (simp add: destructor_def dettachSession_stopping set_state_def LOG_def emit_def
        configuration_def effects_since_def)

text \<open>
  C7 as stated fails: destroying an \<open>Attached\<close> controller ends in \<open>Stopping\<close>, and
  \<open>Stopped\<close> is not among the states assigned.
\<close>

theorem destructor_never_stopped:
  "state (run [AttachSession (Location ''caller'' 1) 7
                 \<lparr>server_start_ok = True, process_create_ok = True\<rparr>,
               NewConnection \<lparr>peerFilePath = ''C:/aspia/aspia_desktop_agent.exe'', accepted_on = 0\<rparr>]
            (DesktopSessionManager ''C:/aspia/aspia_desktop_agent.exe'')) = ATTACHED
   \<and> state (destructor (run [AttachSession (Location ''caller'' 1) 7
                 \<lparr>server_start_ok = True, process_create_ok = True\<rparr>,
               NewConnection \<lparr>peerFilePath = ''C:/aspia/aspia_desktop_agent.exe'', accepted_on = 0\<rparr>]
            (DesktopSessionManager ''C:/aspia/aspia_desktop_agent.exe''))) = STOPPING
   \<and> SetState STOPPED \<notin> set (effects_since
         (run [AttachSession (Location ''caller'' 1) 7
                 \<lparr>server_start_ok = True, process_create_ok = True\<rparr>,
               NewConnection \<lparr>peerFilePath = ''C:/aspia/aspia_desktop_agent.exe'', accepted_on = 0\<rparr>]
            (DesktopSessionManager ''C:/aspia/aspia_desktop_agent.exe''))
         (destructor (run [AttachSession (Location ''caller'' 1) 7
                 \<lparr>server_start_ok = True, process_create_ok = True\<rparr>,
               NewConnection \<lparr>peerFilePath = ''C:/aspia/aspia_desktop_agent.exe'', accepted_on = 0\<rparr>]
            (DesktopSessionManager ''C:/aspia/aspia_desktop_agent.exe''))))"
  by (simp add: closed_forms destructor_def set_state_def LOG_def emit_def effects_since_def)

text \<open>
  C8. In every state, \<open>onDesktopSessionStopped\<close> leaves the same state, owned session,
  server, timer and proxy binding as a direct call of \<open>dettachSession\<close> (from any call
  site), and does the same things to the collaborators in the same order. The two differ
  only in the location written into the log line.
\<close>

theorem onDesktopSessionStopped_is_dettachSession:
  "configuration (onDesktopSessionStopped m) = configuration (dettachSession loc m)
   \<and> visible_effects (onDesktopSessionStopped m) = visible_effects (dettachSession loc m)
   \<and> next_object (onDesktopSessionStopped m) = next_object (dettachSession loc m)"
  unfolding onDesktopSessionStopped_def
  by (cases "state m")
    (simp_all add: dettachSession_idle dettachSession_stopping dettachSession_active
       configuration_def visible_effects_def)

text \<open>
  C9, as amended. When \<open>attachSession\<close> is called in \<open>Starting\<close> or \<open>Detached\<close> it arms
  no timer. If the server starts and the process is spawned, the timer is left as it was
  (not stopped either) and the state is \<open>Starting\<close>; if either fails, the error path
  cancels the timer and the state is \<open>Stopped\<close>. In both cases the call first creates
  the new server object, then destroys the server object held before (if one is held),
  and only then starts the new server.
\<close>

theorem attachSession_again_timer_and_server:
  assumes "state m = STARTING \<or> state m = DETACHED"
  shows "TimerStart AttachTimeout \<notin> set (effects_since m (attachSession loc sid env m))
       \<and> TimerStart ReattachTimeout \<notin> set (effects_since m (attachSession loc sid env m))
       \<and> (server_start_ok env \<and> process_create_ok env \<longrightarrow>
            session_attach_timer (attachSession loc sid env m) = session_attach_timer m
            \<and> TimerStop \<notin> set (effects_since m (attachSession loc sid env m))
            \<and> state (attachSession loc sid env m) = STARTING)
       \<and> (\<not> (server_start_ok env \<and> process_create_ok env) \<longrightarrow>
            session_attach_timer (attachSession loc sid env m) = None
            \<and> state (attachSession loc sid env m) = STOPPED)
       \<and> (\<exists>rest. effects_since m (attachSession loc sid env m) =
            [Log LS_INFO [Str ''Attach session with ID: '', Num sid, Str '' (from: '',
                          Loc loc, Str '')''],
             SetState STARTING, ServerCreated (next_object m)] @
            (case server m of None \<Rightarrow> [] | Some old \<Rightarrow> [ServerDestroyed (server_object old)]) @
            [ServerStart (next_object m) (last_channel_id m) (server_start_ok env)] @ rest)"
proof -
  from assms have s: "state m \<noteq> ATTACHED" "state m \<noteq> STOPPED" by auto
  show ?thesis
  proof (cases "server_start_ok env")
    case False
    with s show ?thesis
      by (cases "server m") (simp_all add: attachSession_server_failed effects_since_def)
  next
    case True
    show ?thesis
    proof (cases "process_create_ok env")
      case False
      with s True show ?thesis
        by (cases "server m") (simp_all add: attachSession_process_failed effects_since_def)
    next
      case p: True
      with s True show ?thesis
        by (cases "server m") (simp_all add: attachSession_created effects_since_def)
    qed
  qed
qed

text \<open>The property above at a concrete input.\<close>

theorem attachSession_again_timer_and_server_witness:
  "(state (attachSession (Location ''caller'' 1) 7
            \<lparr>server_start_ok = True, process_create_ok = True\<rparr>
            (DesktopSessionManager ''C:/aspia/aspia_desktop_agent.exe'')) = STARTING
    \<or> state (attachSession (Location ''caller'' 1) 7
            \<lparr>server_start_ok = True, process_create_ok = True\<rparr>
            (DesktopSessionManager ''C:/aspia/aspia_desktop_agent.exe'')) = DETACHED)
   \<and> session_attach_timer
        (attachSession (Location ''caller'' 2) 7
            \<lparr>server_start_ok = True, process_create_ok = True\<rparr>
          (attachSession (Location ''caller'' 1) 7
            \<lparr>server_start_ok = True, process_create_ok = True\<rparr>
            (DesktopSessionManager ''C:/aspia/aspia_desktop_agent.exe'')))
      = session_attach_timer (attachSession (Location ''caller'' 1) 7
            \<lparr>server_start_ok = True, process_create_ok = True\<rparr>
            (DesktopSessionManager ''C:/aspia/aspia_desktop_agent.exe''))
   \<and> TimerStart AttachTimeout \<notin> set (effects_since
          (attachSession (Location ''caller'' 1) 7
            \<lparr>server_start_ok = True, process_create_ok = True\<rparr>
            (DesktopSessionManager ''C:/aspia/aspia_desktop_agent.exe''))
          (attachSession (Location ''caller'' 2) 7
            \<lparr>server_start_ok = True, process_create_ok = True\<rparr>
          (attachSession (Location ''caller'' 1) 7
            \<lparr>server_start_ok = True, process_create_ok = True\<rparr>
            (DesktopSessionManager ''C:/aspia/aspia_desktop_agent.exe''))))"
proof -
  let ?m = "attachSession (Location ''caller'' 1) 7
            \<lparr>server_start_ok = True, process_create_ok = True\<rparr>
            (DesktopSessionManager ''C:/aspia/aspia_desktop_agent.exe'')"
  let ?env = "\<lparr>server_start_ok = True, process_create_ok = True\<rparr>"
  have h: "state ?m = STARTING \<or> state ?m = DETACHED"
    by (simp add: closed_forms)
  have e: "server_start_ok ?env \<and> process_create_ok ?env" by simp
  from attachSession_again_timer_and_server [OF h, of "Location ''caller'' 2" 7 ?env] e h show ?thesis by blast
qed

text \<open>
  C9 as stated fails when the new server cannot be started: the deadline armed by the
  first \<open>attachSession\<close> does not remain in effect, the second call cancels it.
\<close>

theorem attachSession_again_failure_cancels_timer:
  "state (attachSession (Location ''caller'' 1) 7
            \<lparr>server_start_ok = True, process_create_ok = True\<rparr>
            (DesktopSessionManager ''C:/aspia/aspia_desktop_agent.exe'')) = STARTING
   \<and> session_attach_timer (attachSession (Location ''caller'' 1) 7
            \<lparr>server_start_ok = True, process_create_ok = True\<rparr>
            (DesktopSessionManager ''C:/aspia/aspia_desktop_agent.exe'')) = Some AttachTimeout
   \<and> session_attach_timer
        (attachSession (Location ''caller'' 2) 7
            \<lparr>server_start_ok = False, process_create_ok = True\<rparr>
          (attachSession (Location ''caller'' 1) 7
            \<lparr>server_start_ok = True, process_create_ok = True\<rparr>
            (DesktopSessionManager ''C:/aspia/aspia_desktop_agent.exe''))) = None"
  by (simp add: closed_forms)

section \<open>Properties of the desktop environment\<close>

text \<open>
  C10. Each of \<open>setWallpaper\<close>, \<open>setFontSmoothing\<close> and \<open>setEffects\<close>, called with the
  value the flag already has, returns at once: no flag changes and no system call is
  made. Hence calling a setter twice in a row with the same argument, whatever the
  system answers to the second call, leaves what the first call left.
\<close>

theorem setters_same_value_no_action:
  "(wallpaper d = enable \<longrightarrow> setWallpaper env enable d = d)
   \<and> (font_smoothing d = enable \<longrightarrow> setFontSmoothing env enable d = d)
   \<and> (effects d = enable \<longrightarrow> setEffects env enable d = d)
   \<and> setWallpaper env' enable (setWallpaper env enable d) = setWallpaper env enable d
   \<and> setFontSmoothing env' enable (setFontSmoothing env enable d) =
       setFontSmoothing env enable d
   \<and> setEffects env' enable (setEffects env enable d) = setEffects env enable d"
proof -
  have w: "wallpaper (setWallpaper env enable d) = enable"
    by (simp add: setWallpaper_def revertAll_flags applyNewSettings_flags)
  have f: "font_smoothing (setFontSmoothing env enable d) = enable"
    by (simp add: setFontSmoothing_def revertAll_flags applyNewSettings_flags)
  have e: "effects (setEffects env enable d) = enable"
    by (simp add: setEffects_def revertAll_flags applyNewSettings_flags)
  have "setWallpaper env' enable (setWallpaper env enable d) = setWallpaper env enable d"
    using w by (subst setWallpaper_def) simp
  moreover
  have "setFontSmoothing env' enable (setFontSmoothing env enable d) =
          setFontSmoothing env enable d"
    using f by (subst setFontSmoothing_def) simp
  moreover
  have "setEffects env' enable (setEffects env enable d) = setEffects env enable d"
    using e by (subst setEffects_def) simp
  ultimately show ?thesis
    by (simp add: setWallpaper_def setFontSmoothing_def setEffects_def)
qed

text \<open>The property above at a concrete input.\<close>

theorem setters_same_value_no_action_witness:
  "wallpaper (DesktopEnvironment False True True) = False
   \<and> setWallpaper
        \<lparr>query_user_token_ok = True, logged_on_user_ok = True, module_found = True,
         update_function_found = True\<rparr> False (DesktopEnvironment False True True)
       = DesktopEnvironment False True True
   \<and> calls (setWallpaper
        \<lparr>query_user_token_ok = True, logged_on_user_ok = True, module_found = True,
         update_function_found = True\<rparr> False (DesktopEnvironment False True True))
       = [SystemParametersInfoW SPI_SETDESKWALLPAPER Zero EmptyString SPIF_SENDCHANGE]"
proof -
  let ?d = "DesktopEnvironment False True True"
  let ?env = "\<lparr>query_user_token_ok = True, logged_on_user_ok = True, module_found = True,
         update_function_found = True\<rparr>"
  have h: "wallpaper ?d = False"
    by (simp add: DesktopEnvironment_def applyNewSettings_flags)
  have c: "calls ?d = [SystemParametersInfoW SPI_SETDESKWALLPAPER Zero EmptyString SPIF_SENDCHANGE]"
    by (simp add: DesktopEnvironment_def applyNewSettings_def disableWallpaper_def call_def)
  from setters_same_value_no_action [of ?d False ?env] h have "setWallpaper ?env False ?d = ?d" by blast
  with h c show ?thesis by (simp only: simp_thms)
qed

end
